theory Spec2Isabelle
  imports Main "HOL-Library.Multiset"
begin

section \<open>Data model\<close>

text \<open>
  The module \<^verbatim>\<open>efinance/common/getter.py\<close> fetches quote data over HTTP and returns
  pandas objects.  A cell of a pandas object is a text, a number, or the missing marker
  (\<^verbatim>\<open>None\<close> / \<^verbatim>\<open>NaN\<close>).  The number type is left abstract (\<open>'n\<close>): nothing below
  computes with numbers.
\<close>

datatype 'n cell = Str string | Num 'n | Missing

text \<open>
  A \<^verbatim>\<open>pd.DataFrame\<close>: the column labels in order, and the rows in order, each row a list of
  cells.  A \<^verbatim>\<open>pd.Series\<close> is one labelled row.
\<close>

record 'n DataFrame =
  df_columns :: "string list"
  df_rows :: "'n cell list list"

type_synonym 'n Series = "(string \<times> 'n cell) list"

text \<open>The exceptions the modelled code can raise.\<close>

datatype error = TransportError | KeyError | TypeError | ValueError

section \<open>The normalizer \<^verbatim>\<open>to_numeric\<close>\<close>

text \<open>
  Modelled from the spec: the decorator \<^verbatim>\<open>to_numeric\<close> is imported from
  \<^verbatim>\<open>efinance/utils\<close>, which is not among the sources.  The spec (section 4.1) says: given a
  Table or a single Record, attempt to convert every field's value to a numeric type; a
  field is left unchanged if any value in that field cannot be parsed as a number (all or
  nothing per field); values already numeric are kept; non-numeric text never raises.

  \<open>parse\<close> is the reading of a text as a number, a parameter.  The missing marker is not a
  number and cannot be parsed as one.
\<close>

definition numeric_like :: "(string \<Rightarrow> 'n option) \<Rightarrow> 'n cell \<Rightarrow> bool" where
  "numeric_like parse v =
     (case v of
        Num n \<Rightarrow> True
      | Str s \<Rightarrow> (case parse s of None \<Rightarrow> False | Some n \<Rightarrow> True)
      | Missing \<Rightarrow> False)"

definition convert :: "(string \<Rightarrow> 'n option) \<Rightarrow> 'n cell \<Rightarrow> 'n cell" where
  "convert parse v =
     (case v of
        Str s \<Rightarrow> (case parse s of None \<Rightarrow> Str s | Some n \<Rightarrow> Num n)
      | Num n \<Rightarrow> Num n
      | Missing \<Rightarrow> Missing)"

text \<open>Field \<open>j\<close> of a table is convertible when every row that has a cell there holds a
  number or a text that parses.\<close>

definition field_convertible :: "(string \<Rightarrow> 'n option) \<Rightarrow> 'n cell list list \<Rightarrow> nat \<Rightarrow> bool" where
  "field_convertible parse rs j =
     list_all (\<lambda>r. if j < length r then numeric_like parse (r ! j) else True) rs"

definition convert_row :: "(string \<Rightarrow> 'n option) \<Rightarrow> (nat \<Rightarrow> bool) \<Rightarrow> 'n cell list \<Rightarrow> 'n cell list" where
  "convert_row parse ok r =
     map (\<lambda>(j, v). if ok j then convert parse v else v) (enumerate 0 r)"

definition to_numeric :: "(string \<Rightarrow> 'n option) \<Rightarrow> 'n DataFrame \<Rightarrow> 'n DataFrame" where
  "to_numeric parse df =
     df\<lparr>df_rows := map (convert_row parse (field_convertible parse (df_rows df))) (df_rows df)\<rparr>"

text \<open>On a single Record every field holds one value, so each field is converted on its
  own.\<close>

definition to_numeric_series :: "(string \<Rightarrow> 'n option) \<Rightarrow> 'n Series \<Rightarrow> 'n Series" where
  "to_numeric_series parse s = map (\<lambda>(k, v). (k, convert parse v)) s"


section \<open>Strings\<close>

text \<open>
  The two column labels the fetchers prepend, as the UTF-8 bytes of the source's literals:
  \<open>col_name\<close> is the label of the name column (U+540D U+79F0) and \<open>col_code\<close> the label of
  the code column (U+4EE3 U+7801).
\<close>

definition col_name :: string where
  "col_name = [CHR 0xE5, CHR 0x90, CHR 0x8D, CHR 0xE7, CHR 0xA7, CHR 0xB0]"

definition col_code :: string where
  "col_code = [CHR 0xE4, CHR 0xBB, CHR 0xA3, CHR 0xE7, CHR 0xA0, CHR 0x81]"

text \<open>\<^verbatim>\<open>s.split(sep)\<close> for a one-character separator: never empty, one more piece than
  there are separators.\<close>

fun split_on :: "char \<Rightarrow> string \<Rightarrow> string list" where
  "split_on sep [] = [[]]"
| "split_on sep (c # cs) =
     (if c = sep then [] # split_on sep cs
      else (case split_on sep cs of
              [] \<Rightarrow> [[c]]
            | w # ws \<Rightarrow> (c # w) # ws))"

text \<open>\<^verbatim>\<open>sep.join(xs)\<close>.\<close>

fun join :: "string \<Rightarrow> string list \<Rightarrow> string" where
  "join sep [] = []"
| "join sep [x] = x"
| "join sep (x # y # ys) = x @ sep @ join sep (y # ys)"

text \<open>\<^verbatim>\<open>f'{klt}'\<close>: the decimal text of a Python int.\<close>

function digits :: "nat \<Rightarrow> string" where
  "digits n =
     (if n < 10 then [char_of (48 + n)]
      else digits (n div 10) @ [char_of (48 + n mod 10)])"
  by pat_completeness auto
termination
  by (relation "measure id") auto

definition str_int :: "int \<Rightarrow> string" where
  "str_int i = (if i < 0 then CHR ''-'' # digits (nat (- i)) else digits (nat i))"

section \<open>The network\<close>

text \<open>
  A request is the URL and the query parameters handed to \<^verbatim>\<open>session.get\<close>.  Of the JSON
  body of a reply the code reads the following, and a \<open>response\<close> holds exactly these:
  \<^item> \<open>klines\<close>: what \<^verbatim>\<open>jsonpath(json_response, '$..klines[:]')\<close> returns, the empty list
    standing for its \<^verbatim>\<open>False\<close> (no match); the code tests it with \<^verbatim>\<open>not klines\<close> only;
  \<^item> \<open>data_name\<close>: \<^verbatim>\<open>json_response['data']['name']\<close>, or the exception the subscripts raise;
  \<^item> \<open>names\<close>: what \<^verbatim>\<open>jsonpath(json_response, '$..name')\<close> returns, empty for \<^verbatim>\<open>False\<close>;
  \<^item> \<open>data\<close>: \<^verbatim>\<open>json_response['data']\<close> as a list of items, empty when it is falsy, or the
    exception the subscript raises.
  \<^verbatim>\<open>session.get(...).json()\<close> returns a response or raises.
\<close>

record request =
  req_url :: string
  req_params :: "(string \<times> string) list"

record 'n response =
  klines :: "string list"
  data_name :: "error + string"
  names :: "string list"
  data :: "error + (string \<times> 'n cell) list"

type_synonym 'n session = "request \<Rightarrow> error + 'n response"

section \<open>Building tables\<close>

text \<open>\<^verbatim>\<open>pd.DataFrame(columns=columns)\<close>: no rows.\<close>

definition DataFrame_columns :: "string list \<Rightarrow> 'n DataFrame" where
  "DataFrame_columns cols = \<lparr>df_columns = cols, df_rows = []\<rparr>"

text \<open>
  \<^verbatim>\<open>pd.DataFrame(rows, columns=columns)\<close> on a list of lists of texts: pandas pads the short
  rows with \<^verbatim>\<open>None\<close> up to the longest row, and raises \<^verbatim>\<open>ValueError\<close> when that width is
  not the number of column labels.
\<close>

definition DataFrame_rows :: "string list list \<Rightarrow> string list \<Rightarrow> error + 'n DataFrame" where
  "DataFrame_rows rs cols =
     (if rs = [] then Inr (DataFrame_columns cols)
      else let w = foldr max (map length rs) 0
           in if w \<noteq> length cols then Inl ValueError
              else Inr \<lparr>df_columns = cols,
                        df_rows = map (\<lambda>r. map Str r @ replicate (w - length r) Missing) rs\<rparr>)"

text \<open>\<^verbatim>\<open>df.insert(0, label, v)\<close>: a new first column holding \<open>v\<close> in every row;
  \<^verbatim>\<open>ValueError\<close> when the label is already a column.\<close>

definition df_insert0 :: "string \<Rightarrow> 'n cell \<Rightarrow> 'n DataFrame \<Rightarrow> error + 'n DataFrame" where
  "df_insert0 label v df =
     (if label \<in> set (df_columns df) then Inl ValueError
      else Inr \<lparr>df_columns = label # df_columns df, df_rows = map ((#) v) (df_rows df)\<rparr>)"

section \<open>Single-item fetchers\<close>

text \<open>
  The keyword arguments of the quote-history functions.  \<open>quote_id_mode\<close> is the truth value
  of \<^verbatim>\<open>kwargs.get('quote_id_mode')\<close>; \<open>tries_kw\<close> is the \<^verbatim>\<open>tries\<close> entry of \<^verbatim>\<open>**kwargs\<close>, if
  the caller gave one.
\<close>

record kline_args =
  beg :: string
  end_date :: string
  klt :: int
  fqt :: int
  quote_id_mode :: bool
  tries_kw :: "int option"

text \<open>
  What the module imports and the sources do not hold is a parameter: the field tables
  \<^verbatim>\<open>EASTMONEY_KLINE_FIELDS\<close>, \<^verbatim>\<open>EASTMONEY_HISTORY_BILL_FIELDS\<close> and
  \<^verbatim>\<open>EASTMONEY_BASE_INFO_FIELDS\<close> (dictionaries, as lists of pairs in their order), and the
  resolver \<^verbatim>\<open>get_quote_id\<close>, which returns a quote identifier or raises.
\<close>

record config =
  KLINE_FIELDS :: "(string \<times> string) list"
  HISTORY_BILL_FIELDS :: "(string \<times> string) list"
  BASE_INFO_FIELDS :: "(string \<times> string) list"
  get_quote_id :: "string \<Rightarrow> error + string"

text \<open>
  \<^verbatim>\<open>get_quote_history_single\<close>, lines 58 to 104, before the decorator.  The result comes
  with the number of \<^verbatim>\<open>session.get\<close> requests issued.
\<close>

definition kline_request :: "config \<Rightarrow> kline_args \<Rightarrow> string \<Rightarrow> request" where
  "kline_request cfg a quote_id =
     \<lparr>req_url = ''https://push2his.eastmoney.com/api/qt/stock/kline/get'',
      req_params =
        [(''fields1'', ''f1,f2,f3,f4,f5,f6,f7,f8,f9,f10,f11,f12,f13''),
         (''fields2'', join '','' (map fst (KLINE_FIELDS cfg))),
         (''beg'', beg a),
         (''end'', end_date a),
         (''rtntype'', ''6''),
         (''secid'', quote_id),
         (''klt'', str_int (klt a)),
         (''fqt'', str_int (fqt a))]\<rparr>"

definition kline_table :: "string list \<Rightarrow> string \<Rightarrow> string \<Rightarrow> string list \<Rightarrow> error + 'n DataFrame" where
  "kline_table columns name code ks =
     (case DataFrame_rows (map (split_on CHR '','') ks) columns of
        Inl e \<Rightarrow> Inl e
      | Inr df \<Rightarrow>
          (case df_insert0 col_code (Str code) df of
             Inl e \<Rightarrow> Inl e
           | Inr df' \<Rightarrow> df_insert0 col_name (Str name) df'))"

definition get_quote_history_single_body ::
  "config \<Rightarrow> 'n session \<Rightarrow> string \<Rightarrow> kline_args \<Rightarrow> (error + 'n DataFrame) \<times> nat" where
  "get_quote_history_single_body cfg session_get code a =
     (let columns = map snd (KLINE_FIELDS cfg)
      in case (if quote_id_mode a then Inr code else get_quote_id cfg code) of
           Inl e \<Rightarrow> (Inl e, 0)
         | Inr quote_id \<Rightarrow>
             (case session_get (kline_request cfg a quote_id) of
                Inl e \<Rightarrow> (Inl e, 1)
              | Inr json_response \<Rightarrow>
                  (if klines json_response = []
                   then (Inr (DataFrame_columns (col_name # col_code # columns)), 1)
                   else (case data_name json_response of
                           Inl e \<Rightarrow> (Inl e, 1)
                         | Inr name \<Rightarrow>
                             (kline_table columns name (last (split_on CHR ''.'' quote_id))
                                (klines json_response), 1)))))"

text \<open>The decorator \<^verbatim>\<open>@to_numeric\<close> normalises what the function returns and lets its
  exceptions through.\<close>

definition decorated ::
  "(string \<Rightarrow> 'n option) \<Rightarrow> (error + 'n DataFrame) \<times> nat \<Rightarrow> (error + 'n DataFrame) \<times> nat" where
  "decorated parse r =
     (case r of (Inl e, n) \<Rightarrow> (Inl e, n) | (Inr df, n) \<Rightarrow> (Inr (to_numeric parse df), n))"

definition get_quote_history_single ::
  "(string \<Rightarrow> 'n option) \<Rightarrow> config \<Rightarrow> 'n session \<Rightarrow> string \<Rightarrow> kline_args
   \<Rightarrow> (error + 'n DataFrame) \<times> nat" where
  "get_quote_history_single parse cfg session_get code a =
     decorated parse (get_quote_history_single_body cfg session_get code a)"

text \<open>\<^verbatim>\<open>get_history_bill\<close>, lines 213 to 258.  The name is the first match of
  \<^verbatim>\<open>jsonpath(json_response, '$..name')\<close>; subscripting its \<^verbatim>\<open>False\<close> raises
  \<^verbatim>\<open>TypeError\<close>.\<close>

definition bill_request :: "config \<Rightarrow> string \<Rightarrow> request" where
  "bill_request cfg quote_id =
     \<lparr>req_url = ''http://push2his.eastmoney.com/api/qt/stock/fflow/daykline/get'',
      req_params =
        [(''lmt'', ''100000''),
         (''klt'', ''101''),
         (''secid'', quote_id),
         (''fields1'', ''f1,f2,f3,f7''),
         (''fields2'', join '','' (map fst (HISTORY_BILL_FIELDS cfg)))]\<rparr>"

definition get_history_bill_body ::
  "config \<Rightarrow> 'n session \<Rightarrow> string \<Rightarrow> (error + 'n DataFrame) \<times> nat" where
  "get_history_bill_body cfg session_get code =
     (let columns = map snd (HISTORY_BILL_FIELDS cfg)
      in case get_quote_id cfg code of
           Inl e \<Rightarrow> (Inl e, 0)
         | Inr quote_id \<Rightarrow>
             (case session_get (bill_request cfg quote_id) of
                Inl e \<Rightarrow> (Inl e, 1)
              | Inr json_response \<Rightarrow>
                  (if klines json_response = []
                   then (Inr (DataFrame_columns (col_name # col_code # columns)), 1)
                   else (case names json_response of
                           [] \<Rightarrow> (Inl TypeError, 1)
                         | name # _ \<Rightarrow>
                             (kline_table columns name (last (split_on CHR ''.'' quote_id))
                                (klines json_response), 1)))))"

definition get_history_bill ::
  "(string \<Rightarrow> 'n option) \<Rightarrow> config \<Rightarrow> 'n session \<Rightarrow> string \<Rightarrow> (error + 'n DataFrame) \<times> nat" where
  "get_history_bill parse cfg session_get code =
     decorated parse (get_history_bill_body cfg session_get code)"

text \<open>
  \<^verbatim>\<open>get_today_bill\<close>, lines 262 to 302, is the sibling that reads the name before it looks
  at the rows: \<^verbatim>\<open>jsonpath(json_response, '$..name')[0]\<close> comes first, the test
  \<^verbatim>\<open>not klines\<close> after it.  Its six column labels are literals of the source (the time,
  then five net inflows), here as their UTF-8 bytes.
\<close>

definition today_bill_columns :: "string list" where
  "today_bill_columns =
     [[CHR 0xE6, CHR 0x97, CHR 0xB6, CHR 0xE9, CHR 0x97, CHR 0xB4],
      [CHR 0xE4, CHR 0xB8, CHR 0xBB, CHR 0xE5, CHR 0x8A, CHR 0x9B, CHR 0xE5, CHR 0x87, CHR 0x80,
       CHR 0xE6, CHR 0xB5, CHR 0x81, CHR 0xE5, CHR 0x85, CHR 0xA5],
      [CHR 0xE5, CHR 0xB0, CHR 0x8F, CHR 0xE5, CHR 0x8D, CHR 0x95, CHR 0xE5, CHR 0x87, CHR 0x80,
       CHR 0xE6, CHR 0xB5, CHR 0x81, CHR 0xE5, CHR 0x85, CHR 0xA5],
      [CHR 0xE4, CHR 0xB8, CHR 0xAD, CHR 0xE5, CHR 0x8D, CHR 0x95, CHR 0xE5, CHR 0x87, CHR 0x80,
       CHR 0xE6, CHR 0xB5, CHR 0x81, CHR 0xE5, CHR 0x85, CHR 0xA5],
      [CHR 0xE5, CHR 0xA4, CHR 0xA7, CHR 0xE5, CHR 0x8D, CHR 0x95, CHR 0xE5, CHR 0x87, CHR 0x80,
       CHR 0xE6, CHR 0xB5, CHR 0x81, CHR 0xE5, CHR 0x85, CHR 0xA5],
      [CHR 0xE8, CHR 0xB6, CHR 0x85, CHR 0xE5, CHR 0xA4, CHR 0xA7, CHR 0xE5, CHR 0x8D, CHR 0x95,
       CHR 0xE5, CHR 0x87, CHR 0x80, CHR 0xE6, CHR 0xB5, CHR 0x81, CHR 0xE5, CHR 0x85, CHR 0xA5]]"

definition today_bill_request :: "string \<Rightarrow> request" where
  "today_bill_request quote_id =
     \<lparr>req_url = ''http://push2.eastmoney.com/api/qt/stock/fflow/kline/get'',
      req_params =
        [(''lmt'', ''0''),
         (''klt'', ''1''),
         (''secid'', quote_id),
         (''fields1'', ''f1,f2,f3,f7''),
         (''fields2'', ''f51,f52,f53,f54,f55,f56,f57,f58,f59,f60,f61,f62,f63'')]\<rparr>"

definition get_today_bill_body ::
  "config \<Rightarrow> 'n session \<Rightarrow> string \<Rightarrow> (error + 'n DataFrame) \<times> nat" where
  "get_today_bill_body cfg session_get code =
     (case get_quote_id cfg code of
        Inl e \<Rightarrow> (Inl e, 0)
      | Inr quote_id \<Rightarrow>
          (case session_get (today_bill_request quote_id) of
             Inl e \<Rightarrow> (Inl e, 1)
           | Inr json_response \<Rightarrow>
               (case names json_response of
                  [] \<Rightarrow> (Inl TypeError, 1)
                | name # _ \<Rightarrow>
                    (if klines json_response = []
                     then (Inr (DataFrame_columns (col_name # col_code # today_bill_columns)), 1)
                     else (kline_table today_bill_columns name
                             (last (split_on CHR ''.'' quote_id)) (klines json_response), 1)))))"

definition get_today_bill ::
  "(string \<Rightarrow> 'n option) \<Rightarrow> config \<Rightarrow> 'n session \<Rightarrow> string \<Rightarrow> (error + 'n DataFrame) \<times> nat" where
  "get_today_bill parse cfg session_get code =
     decorated parse (get_today_bill_body cfg session_get code)"

section \<open>Retrying\<close>

text \<open>
  \<^verbatim>\<open>@retry(tries=tries, delay=1)\<close> of the \<^verbatim>\<open>retry\<close> package runs
  \<^verbatim>\<open>
  _tries = tries
  while _tries:
      try:
          return f()
      except Exception:
          _tries -= 1
          if not _tries:
              raise
          time.sleep(_delay)
  \<close>
  and returns \<^verbatim>\<open>None\<close> when the loop is not entered.  \<open>f k\<close> is what the \<open>k\<close>-th call of
  the wrapped function does: its outcome and the number of requests it issued.  The result
  is \<open>Some (Inr v)\<close> for a returned value, \<open>Some (Inl e)\<close> for the exception raised at
  the end, \<open>None\<close> for the \<^verbatim>\<open>None\<close> of a loop never entered, with the index of the next
  call and the requests counted so far.  A negative \<open>tries\<close> never reaches zero: the loop
  then ends only on a success, and the function is partial.
\<close>

partial_function (option) retry_call ::
  "int \<Rightarrow> (nat \<Rightarrow> (error + 'a) \<times> nat) \<Rightarrow> nat \<Rightarrow> nat \<Rightarrow> ((error + 'a) option \<times> nat \<times> nat) option" where
  "retry_call tries f k reqs =
     (if tries = 0 then Some (None, k, reqs)
      else (case f k of
              (Inr v, n) \<Rightarrow> Some (Some (Inr v), k + 1, reqs + n)
            | (Inl e, n) \<Rightarrow>
                (if tries - 1 = 0 then Some (Some (Inl e), k + 1, reqs + n)
                 else retry_call (tries - 1) f (k + 1) (reqs + n))))"

declare retry_call.simps [code]

text \<open>A call returned (it did not raise).\<close>

definition returns :: "(error + 'a) \<times> nat \<Rightarrow> bool" where
  "returns x = (case fst x of Inl e \<Rightarrow> False | Inr v \<Rightarrow> True)"

text \<open>The same loop for a budget that is a natural number, where it is total; the lemma
  \<open>retry_call_bounded\<close> below says that \<open>retry_call\<close> computes it.\<close>

fun retry_bounded ::
  "nat \<Rightarrow> (nat \<Rightarrow> (error + 'a) \<times> nat) \<Rightarrow> nat \<Rightarrow> nat \<Rightarrow> (error + 'a) option \<times> nat \<times> nat" where
  "retry_bounded 0 f k reqs = (None, k, reqs)"
| "retry_bounded (Suc m) f k reqs =
     (case f k of
        (Inr v, n) \<Rightarrow> (Some (Inr v), k + 1, reqs + n)
      | (Inl e, n) \<Rightarrow>
          (if m = 0 then (Some (Inl e), k + 1, reqs + n)
           else retry_bounded m f (k + 1) (reqs + n)))"

section \<open>The batch\<close>

text \<open>
  The state shared by the units of work of \<^verbatim>\<open>get_quote_history_multi\<close>: the dictionary
  \<^verbatim>\<open>dfs\<close>, the progress bar \<^verbatim>\<open>pbar\<close> (its total and its counter \<^verbatim>\<open>n\<close>), and two counters
  that a call-count stub would observe: the calls of \<^verbatim>\<open>get_quote_history_single\<close> and the
  requests issued.
\<close>

record 'n batch =
  dfs :: "string \<rightharpoonup> 'n DataFrame"
  pbar_total :: nat
  pbar_n :: nat
  attempts :: nat
  requests :: nat

text \<open>
  The network of a batch: \<open>net i k\<close> is the session that the \<open>k\<close>-th attempt of unit \<open>i\<close>
  talks to.  The units run in threads of their own, so every unit has its own sequence of
  replies.
\<close>

type_synonym 'n network = "nat \<Rightarrow> nat \<Rightarrow> 'n session"

text \<open>The body of \<^verbatim>\<open>start\<close>, lines 126 to 135: the two writes follow a fetch that
  returned; a fetch that raised leaves the state as it was.\<close>

definition start ::
  "(string \<Rightarrow> 'n option) \<Rightarrow> config \<Rightarrow> kline_args \<Rightarrow> 'n batch \<Rightarrow> string \<Rightarrow> 'n session
   \<Rightarrow> (error + 'n batch) \<times> nat" where
  "start parse cfg a st code session_get =
     (case get_quote_history_single parse cfg session_get code a of
        (Inl e, n) \<Rightarrow> (Inl e, n)
      | (Inr df, n) \<Rightarrow> (Inr (st\<lparr>dfs := (dfs st)(code \<mapsto> df), pbar_n := pbar_n st + 1\<rparr>), n))"

text \<open>
  One unit of work: \<^verbatim>\<open>start\<close> under \<^verbatim>\<open>@retry\<close> under \<^verbatim>\<open>@multitasking.task\<close>.  The task runs in
  a thread: an exception that leaves \<^verbatim>\<open>start\<close> ends the thread and nothing else, and the
  value \<^verbatim>\<open>start\<close> returns is dropped.  \<open>None\<close> is a unit that never ends.
\<close>

definition run_unit ::
  "(string \<Rightarrow> 'n option) \<Rightarrow> config \<Rightarrow> kline_args \<Rightarrow> int \<Rightarrow> (nat \<Rightarrow> 'n session) \<Rightarrow> string
   \<Rightarrow> 'n batch \<Rightarrow> 'n batch option" where
  "run_unit parse cfg a tries sessions code st =
     (case retry_call tries (\<lambda>k. start parse cfg a st code (sessions k)) 0 0 of
        None \<Rightarrow> None
      | Some (r, k, n) \<Rightarrow>
          (let st' = (case r of Some (Inr written) \<Rightarrow> written | _ \<Rightarrow> st)
           in Some (st'\<lparr>attempts := attempts st + k, requests := requests st + n\<rparr>)))"

text \<open>
  The units end in some order; \<open>sched\<close> lists the indices of the units in the order in
  which they end, and the shared state takes their writes in that order.
\<close>

fun run_units ::
  "(string \<Rightarrow> 'n option) \<Rightarrow> config \<Rightarrow> kline_args \<Rightarrow> int \<Rightarrow> 'n network \<Rightarrow> string list
   \<Rightarrow> nat list \<Rightarrow> 'n batch \<Rightarrow> 'n batch option" where
  "run_units parse cfg a tries net codes [] st = Some st"
| "run_units parse cfg a tries net codes (i # sched) st =
     (case run_unit parse cfg a tries (net i) (codes ! i) st of
        None \<Rightarrow> None
      | Some st' \<Rightarrow> run_units parse cfg a tries net codes sched st')"

text \<open>A schedule of a batch names every unit once.\<close>

definition schedule_of :: "string list \<Rightarrow> nat list \<Rightarrow> bool" where
  "schedule_of codes sched = (mset sched = mset [0..<length codes])"

text \<open>
  \<^verbatim>\<open>get_quote_history_multi\<close>, lines 107 to 142: one unit per element of \<^verbatim>\<open>codes\<close>, then
  \<^verbatim>\<open>multitasking.wait_for_tasks()\<close>, which returns when no unit is running any more.  The
  function returns \<^verbatim>\<open>dfs\<close>; the model returns the whole final state, \<open>None\<close> when a unit
  never ends.
\<close>

definition get_quote_history_multi ::
  "(string \<Rightarrow> 'n option) \<Rightarrow> config \<Rightarrow> 'n network \<Rightarrow> nat list \<Rightarrow> string list \<Rightarrow> kline_args
   \<Rightarrow> int \<Rightarrow> 'n batch option" where
  "get_quote_history_multi parse cfg net sched codes a tries =
     run_units parse cfg a tries net codes sched
       \<lparr>dfs = Map.empty, pbar_total = length codes, pbar_n = 0, attempts = 0, requests = 0\<rparr>"

text \<open>Attempt \<open>k\<close> of unit \<open>i\<close> of a batch returns a table.\<close>

definition attempt_returns ::
  "(string \<Rightarrow> 'n option) \<Rightarrow> config \<Rightarrow> kline_args \<Rightarrow> 'n network \<Rightarrow> string list \<Rightarrow> nat \<Rightarrow> nat \<Rightarrow> bool" where
  "attempt_returns parse cfg a net codes i k =
     returns (get_quote_history_single parse cfg (net i k) (codes ! i) a)"

text \<open>Unit \<open>i\<close> succeeds within its budget: one of its first \<open>tries\<close> attempts returns.\<close>

definition unit_succeeds ::
  "(string \<Rightarrow> 'n option) \<Rightarrow> config \<Rightarrow> kline_args \<Rightarrow> int \<Rightarrow> 'n network \<Rightarrow> string list \<Rightarrow> nat \<Rightarrow> bool" where
  "unit_succeeds parse cfg a tries net codes i =
     list_ex (attempt_returns parse cfg a net codes i) [0..<nat tries]"

section \<open>The dispatch\<close>

text \<open>
  The argument \<^verbatim>\<open>codes\<close> of \<^verbatim>\<open>get_quote_history\<close> is any Python object.  The code asks
  \<^verbatim>\<open>isinstance(codes, str)\<close> and \<^verbatim>\<open>hasattr(codes, '__iter__')\<close>, and takes \<^verbatim>\<open>list(codes)\<close>.  A
  \<^verbatim>\<open>str\<close> has \<^verbatim>\<open>__iter__\<close> too, and iterating it gives its characters.
\<close>

datatype pyobj = PyStr string | PyList "string list" | PyInt int | PyNone

fun isinstance_str :: "pyobj \<Rightarrow> bool" where
  "isinstance_str (PyStr s) = True"
| "isinstance_str other = False"

fun hasattr_iter :: "pyobj \<Rightarrow> bool" where
  "hasattr_iter (PyStr s) = True"
| "hasattr_iter (PyList xs) = True"
| "hasattr_iter other = False"

fun list_of :: "pyobj \<Rightarrow> string list" where
  "list_of (PyStr s) = map (\<lambda>c. [c]) s"
| "list_of (PyList xs) = xs"
| "list_of other = []"

fun str_of :: "pyobj \<Rightarrow> string" where
  "str_of (PyStr s) = s"
| "str_of other = []"

datatype 'n fetched = Table "'n DataFrame" | ResultMap "string \<rightharpoonup> 'n DataFrame"

text \<open>
  \<^verbatim>\<open>get_quote_history\<close>, lines 145 to 209.  \<^verbatim>\<open>**kwargs\<close> goes to either callee; only
  \<^verbatim>\<open>get_quote_history_multi\<close> has a parameter \<^verbatim>\<open>tries\<close>, with default 3.  A single fetch
  talks to the session \<open>net 0 0\<close>.  The result comes with the number of requests issued;
  \<open>None\<close> is a call that never returns.
\<close>

definition get_quote_history ::
  "(string \<Rightarrow> 'n option) \<Rightarrow> config \<Rightarrow> 'n network \<Rightarrow> nat list \<Rightarrow> pyobj \<Rightarrow> kline_args
   \<Rightarrow> ((error + 'n fetched) \<times> nat) option" where
  "get_quote_history parse cfg net sched codes a =
     (if isinstance_str codes
      then (case get_quote_history_single parse cfg (net 0 0) (str_of codes) a of
              (Inl e, n) \<Rightarrow> Some (Inl e, n)
            | (Inr df, n) \<Rightarrow> Some (Inr (Table df), n))
      else if hasattr_iter codes
      then (case get_quote_history_multi parse cfg net sched (list_of codes) a
                   (case tries_kw a of None \<Rightarrow> 3 | Some t \<Rightarrow> t) of
              None \<Rightarrow> None
            | Some st \<Rightarrow> Some (Inr (ResultMap (dfs st)), requests st))
      else Some (Inl TypeError, 0))"

section \<open>The reference cache\<close>

text \<open>
  \<^verbatim>\<open>get_base_info\<close>, lines 305 to 326, with its decorator: a falsy \<^verbatim>\<open>data\<close> gives a Series of
  missing values over the declared labels, anything else the items of \<^verbatim>\<open>data\<close> with their
  keys renamed by the field table.
\<close>

definition base_info_request :: "config \<Rightarrow> string \<Rightarrow> request" where
  "base_info_request cfg quote_id =
     \<lparr>req_url = ''http://push2.eastmoney.com/api/qt/stock/get'',
      req_params =
        [(''ut'', ''fa5fd1943c7b386f172d6893dbfba10b''),
         (''invt'', ''2''),
         (''fltt'', ''2''),
         (''fields'', join '','' (map fst (BASE_INFO_FIELDS cfg))),
         (''secid'', quote_id)]\<rparr>"

definition rename_index :: "(string \<times> string) list \<Rightarrow> string \<Rightarrow> string" where
  "rename_index table k = (case map_of table k of None \<Rightarrow> k | Some label \<Rightarrow> label)"

definition get_base_info ::
  "(string \<Rightarrow> 'n option) \<Rightarrow> config \<Rightarrow> 'n session \<Rightarrow> string \<Rightarrow> error + 'n Series" where
  "get_base_info parse cfg session_get quote_id =
     (case session_get (base_info_request cfg quote_id) of
        Inl e \<Rightarrow> Inl e
      | Inr json_response \<Rightarrow>
          (case data json_response of
             Inl e \<Rightarrow> Inl e
           | Inr items \<Rightarrow>
               (if items = []
                then Inr (to_numeric_series parse
                            (map (\<lambda>label. (label, Missing)) (map snd (BASE_INFO_FIELDS cfg))))
                else Inr (to_numeric_series parse
                            (map (\<lambda>(k, v). (rename_index (BASE_INFO_FIELDS cfg) k, v)) items)))))"

text \<open>
  The process-wide dictionary \<^verbatim>\<open>BASE_INFO_CACHE\<close>, and the count of the requests that
  \<^verbatim>\<open>get_base_info\<close> has issued.
\<close>

record 'n cache_state =
  BASE_INFO_CACHE :: "string \<rightharpoonup> 'n Series"
  base_info_requests :: nat

text \<open>
  The lookup of \<^verbatim>\<open>get_deal_detail\<close>, lines 351 and 352:
  \<^verbatim>\<open>
  base_info = BASE_INFO_CACHE.get(quote_id, get_base_info(quote_id))
  BASE_INFO_CACHE[quote_id] = base_info
  \<close>
  Python evaluates the arguments of \<^verbatim>\<open>.get\<close> before the call, so \<^verbatim>\<open>get_base_info\<close> runs
  first, whatever the dictionary holds; when it raises, the lookup raises.
\<close>

definition base_info_lookup ::
  "(string \<Rightarrow> 'n option) \<Rightarrow> config \<Rightarrow> 'n session \<Rightarrow> string \<Rightarrow> 'n cache_state
   \<Rightarrow> (error + 'n Series) \<times> 'n cache_state" where
  "base_info_lookup parse cfg session_get quote_id st =
     (let fetched = get_base_info parse cfg session_get quote_id;
          st1 = st\<lparr>base_info_requests := base_info_requests st + 1\<rparr>
      in case fetched of
           Inl e \<Rightarrow> (Inl e, st1)
         | Inr fallback \<Rightarrow>
             (let base_info = (case BASE_INFO_CACHE st1 quote_id of
                                 None \<Rightarrow> fallback
                               | Some stored \<Rightarrow> stored)
              in (Inr base_info,
                  st1\<lparr>BASE_INFO_CACHE := (BASE_INFO_CACHE st1)(quote_id \<mapsto> base_info)\<rparr>)))"

section \<open>Stubs\<close>

text \<open>
  Concrete inputs for the closed theorems below: a reading of digit strings as integers, a
  configuration with two fields per table, the default arguments of the source with
  \<^verbatim>\<open>quote_id_mode\<close> set, a reply of one data row, and two networks: one that is down, and
  the one of the spec's scenario (section 8), where the identifier \<^verbatim>\<open>BADID\<close> always fails
  transport.
\<close>

definition parse_digits :: "string \<Rightarrow> int option" where
  "parse_digits s =
     (if s \<noteq> [] \<and> list_all (\<lambda>c. 48 \<le> (of_char c :: nat) \<and> (of_char c :: nat) \<le> 57) s
      then Some (foldl (\<lambda>n c. 10 * n + (of_char c - 48)) 0 s)
      else None)"

definition example_config :: config where
  "example_config =
     \<lparr>KLINE_FIELDS = [(''f51'', ''date''), (''f53'', ''close'')],
      HISTORY_BILL_FIELDS = [(''f51'', ''date''), (''f52'', ''inflow'')],
      BASE_INFO_FIELDS = [(''f57'', col_code), (''f58'', col_name)],
      get_quote_id = (\<lambda>code. Inr (''1.'' @ code))\<rparr>"

definition default_args :: kline_args where
  "default_args =
     \<lparr>beg = ''19000101'', end_date = ''20500101'', klt = 101, fqt = 1,
      quote_id_mode = True, tries_kw = None\<rparr>"

definition one_day :: "int response" where
  "one_day = \<lparr>klines = [''20210104,10''], data_name = Inr ''bank'', names = [''bank''],
              data = Inr [(''f57'', Str ''000001''), (''f58'', Str ''bank'')]\<rparr>"

definition no_rows :: "int response" where
  "no_rows = \<lparr>klines = [], data_name = Inl TypeError, names = [], data = Inr []\<rparr>"

definition scenario_net :: "int network" where
  "scenario_net i k req =
     (if map_of (req_params req) ''secid'' = Some ''BADID'' then Inl TransportError
      else Inr one_day)"

definition down_net :: "int network" where
  "down_net i k req = Inl TransportError"

definition quiet_net :: "int network" where
  "quiet_net i k req = Inr no_rows"

definition empty_cache :: "int cache_state" where
  "empty_cache = \<lparr>BASE_INFO_CACHE = Map.empty, base_info_requests = 0\<rparr>"

section \<open>Properties of the normalizer\<close>

lemma convert_idem: "convert parse (convert parse v) = convert parse v"
  by (simp add: convert_def split: cell.splits option.splits)

lemma numeric_like_convert:
  "numeric_like parse v \<Longrightarrow> numeric_like parse (convert parse v)"
  by (simp add: convert_def numeric_like_def split: cell.splits option.splits)

lemma length_convert_row: "length (convert_row parse ok r) = length r"
  by (simp add: convert_row_def)

lemma nth_convert_row:
  "j < length r \<Longrightarrow>
   convert_row parse ok r ! j = (if ok j then convert parse (r ! j) else r ! j)"
  by (simp add: convert_row_def nth_enumerate_eq)

lemma convert_row_idem:
  "convert_row parse ok (convert_row parse ok r) = convert_row parse ok r"
  by (rule nth_equalityI) (simp_all add: length_convert_row nth_convert_row convert_idem)

lemma field_convertible_stable:
  "field_convertible parse
     (map (convert_row parse (field_convertible parse rs)) rs) j
   = field_convertible parse rs j"
proof (cases "field_convertible parse rs j")
  case True
  then have "\<forall>r\<in>set rs. j < length r \<longrightarrow> numeric_like parse (r ! j)"
    by (auto simp: field_convertible_def list_all_iff split: if_splits)
  then have "\<forall>r\<in>set rs. j < length r \<longrightarrow>
      numeric_like parse (convert_row parse (field_convertible parse rs) r ! j)"
    using True by (simp add: nth_convert_row numeric_like_convert)
  then have "field_convertible parse
      (map (convert_row parse (field_convertible parse rs)) rs) j"
    by (simp add: field_convertible_def list_all_iff length_convert_row)
  with True show ?thesis by simp
next
  case False
  then obtain r where r: "r \<in> set rs" "j < length r" "\<not> numeric_like parse (r ! j)"
    by (auto simp: field_convertible_def list_all_iff split: if_splits)
  then have "\<not> numeric_like parse (convert_row parse (field_convertible parse rs) r ! j)"
    using False by (simp add: nth_convert_row)
  with r have "\<not> field_convertible parse
      (map (convert_row parse (field_convertible parse rs)) rs) j"
    by (auto simp: field_convertible_def list_all_iff length_convert_row)
  with False show ?thesis by simp
qed

lemma length_to_numeric: "length (df_rows (to_numeric parse df)) = length (df_rows df)"
  by (simp add: to_numeric_def)

lemma columns_to_numeric: "df_columns (to_numeric parse df) = df_columns df"
  by (simp add: to_numeric_def)

text \<open>
  Claim C7.  The normalizer is idempotent: for every table, normalising twice gives the
  table that normalising once gives.
\<close>

theorem to_numeric_idempotent:
  "to_numeric parse (to_numeric parse df) = to_numeric parse df"
proof -
  let ?ok = "field_convertible parse (df_rows df)"
  let ?rs = "map (convert_row parse ?ok) (df_rows df)"
  have ok: "field_convertible parse ?rs = ?ok"
    by (rule ext) (rule field_convertible_stable)
  have "map (convert_row parse (field_convertible parse ?rs)) ?rs = ?rs"
    unfolding ok by (simp add: convert_row_idem)
  then show ?thesis
    by (simp add: to_numeric_def)
qed


section \<open>Properties of the retry loop\<close>

lemma retry_call_bounded:
  "retry_call (int m) f k reqs = Some (retry_bounded m f k reqs)"
proof (induction m arbitrary: k reqs)
  case 0
  show ?case by (subst retry_call.simps) simp
next
  case (Suc m)
  have eq: "int (Suc m) - 1 = int m" by simp
  show ?case
    by (subst retry_call.simps) (simp add: eq Suc split: prod.splits sum.splits)
qed

lemma retry_bounded_all_fail:
  "\<forall>j<m. \<not> returns (f (k + j)) \<Longrightarrow> 0 < m \<Longrightarrow>
   \<exists>e n. retry_bounded m f k reqs = (Some (Inl e), k + m, n) \<and> fst (f (k + m - 1)) = Inl e"
proof (induction m arbitrary: k reqs)
  case 0
  then show ?case by simp
next
  case (Suc m)
  from Suc.prems have f0: "\<not> returns (f k)" by (metis add.right_neutral zero_less_Suc)
  then obtain e n where fk: "f k = (Inl e, n)"
    by (cases "f k"; cases "fst (f k)") (auto simp: returns_def)
  show ?case
  proof (cases "m = 0")
    case True
    with fk show ?thesis by simp
  next
    case False
    have "\<forall>j<m. \<not> returns (f (Suc k + j))" using Suc.prems by auto
    from Suc.IH[OF this, of "reqs + n"] False
    obtain e' n' where "retry_bounded m f (Suc k) (reqs + n) = (Some (Inl e'), Suc k + m, n')"
      "fst (f (Suc k + m - 1)) = Inl e'" by auto
    with fk False show ?thesis by simp
  qed
qed

lemma retry_bounded_success:
  "j < m \<Longrightarrow> returns (f (k + j)) \<Longrightarrow> \<forall>j'<j. \<not> returns (f (k + j')) \<Longrightarrow>
   \<exists>v n. retry_bounded m f k reqs = (Some (Inr v), k + j + 1, n) \<and> fst (f (k + j)) = Inr v"
proof (induction m arbitrary: k reqs j)
  case 0
  then show ?case by simp
next
  case (Suc m)
  show ?case
  proof (cases j)
    case 0
    with Suc.prems obtain v n where "f k = (Inr v, n)"
      by (cases "f k"; cases "fst (f k)") (auto simp: returns_def)
    with 0 show ?thesis by simp
  next
    case (Suc j0)
    with Suc.prems have "\<not> returns (f k)" by (metis add.right_neutral zero_less_Suc)
    then obtain e n where fk: "f k = (Inl e, n)"
      by (cases "f k"; cases "fst (f k)") (auto simp: returns_def)
    have m0: "m \<noteq> 0" using Suc Suc.prems by simp
    have a: "j0 < m" using Suc Suc.prems by simp
    have b: "returns (f (Suc k + j0))" using Suc Suc.prems by simp
    have c: "\<forall>j'<j0. \<not> returns (f (Suc k + j'))" using Suc Suc.prems by auto
    from Suc.IH[OF a b c, of "reqs + n"]
    show ?thesis using fk m0 Suc by simp
  qed
qed

section \<open>Properties of the batch\<close>

lemma returns_start:
  "returns (start parse cfg a st code s) = returns (get_quote_history_single parse cfg s code a)"
  by (simp add: start_def returns_def split: prod.splits sum.splits)

lemma start_Inr:
  "fst (start parse cfg a st code s) = Inr w \<Longrightarrow>
   dom (dfs w) = insert code (dom (dfs st)) \<and> pbar_n w = pbar_n st + 1
   \<and> pbar_total w = pbar_total st"
  by (auto simp: start_def split: prod.splits sum.splits)

lemma run_unit_effect:
  assumes "0 \<le> tries"
  shows "\<exists>st'. run_unit parse cfg a tries (net i) (codes ! i) st = Some st'
     \<and> pbar_total st' = pbar_total st
     \<and> attempts st' \<le> attempts st + nat tries
     \<and> (if unit_succeeds parse cfg a tries net codes i
        then dom (dfs st') = insert (codes ! i) (dom (dfs st)) \<and> pbar_n st' = pbar_n st + 1
        else dfs st' = dfs st \<and> pbar_n st' = pbar_n st)"
proof -
  define m where "m = nat tries"
  define F where "F = (\<lambda>k. start parse cfg a st (codes ! i) (net i k))"
  have tries: "tries = int m" using assms by (simp add: m_def)
  have rc: "retry_call tries F 0 0 = Some (retry_bounded m F 0 0)"
    unfolding tries by (rule retry_call_bounded)
  have ok: "returns (F k) = attempt_returns parse cfg a net codes i k" for k
    by (simp add: F_def returns_start attempt_returns_def)
  have ex: "unit_succeeds parse cfg a tries net codes i = (\<exists>j<m. returns (F j))"
    by (auto simp: unit_succeeds_def list_ex_iff ok m_def)
  show ?thesis
  proof (cases "\<exists>j<m. returns (F j)")
    case True
    define j where "j = (LEAST j. j < m \<and> returns (F j))"
    have j: "j < m \<and> returns (F j)"
      unfolding j_def using True by (metis (mono_tags, lifting) LeastI_ex)
    have least: "\<forall>j'<j. \<not> returns (F (0 + j'))"
    proof (intro allI impI)
      fix j' assume "j' < j"
      then have "\<not> (j' < m \<and> returns (F j'))"
        unfolding j_def by (rule not_less_Least)
      with \<open>j' < j\<close> j show "\<not> returns (F (0 + j'))" by simp
    qed
    from j have a: "j < m" and b: "returns (F (0 + j))" by simp_all
    from retry_bounded_success[OF a b least, of 0]
    obtain w n where rb: "retry_bounded m F 0 0 = (Some (Inr w), j + 1, n)"
      and w: "fst (F j) = Inr w" by auto
    from w have eff: "dom (dfs w) = insert (codes ! i) (dom (dfs st)) \<and> pbar_n w = pbar_n st + 1
        \<and> pbar_total w = pbar_total st"
      unfolding F_def by (rule start_Inr)
    show ?thesis
      using rc rb eff True a unfolding ex
      by (simp add: run_unit_def F_def m_def)
  next
    case False
    show ?thesis
    proof (cases "m = 0")
      case True
      then show ?thesis using rc False unfolding ex
        by (simp add: run_unit_def F_def)
    next
      case nz: False
      have "\<forall>j<m. \<not> returns (F (0 + j))" using False by simp
      from retry_bounded_all_fail[OF this, of 0] nz
      obtain e n where "retry_bounded m F 0 0 = (Some (Inl e), m, n)" by auto
      then show ?thesis using rc False unfolding ex
        by (simp add: run_unit_def F_def m_def)
    qed
  qed
qed

lemma run_units_effect:
  assumes "0 \<le> tries"
  shows "\<exists>st'. run_units parse cfg a tries net codes sched st = Some st'
     \<and> pbar_total st' = pbar_total st
     \<and> attempts st' \<le> attempts st + length sched * nat tries
     \<and> dom (dfs st') = dom (dfs st) \<union> (\<lambda>i. codes ! i) ` {i \<in> set sched. unit_succeeds parse cfg a tries net codes i}
     \<and> pbar_n st' = pbar_n st + length (filter (unit_succeeds parse cfg a tries net codes) sched)"
proof (induction sched arbitrary: st)
  case Nil
  show ?case by simp
next
  case (Cons i sched)
  from run_unit_effect[OF assms, of parse cfg a net i codes st]
  obtain st1 where u: "run_unit parse cfg a tries (net i) (codes ! i) st = Some st1"
    and t: "pbar_total st1 = pbar_total st"
    and at: "attempts st1 \<le> attempts st + nat tries"
    and e: "if unit_succeeds parse cfg a tries net codes i
        then dom (dfs st1) = insert (codes ! i) (dom (dfs st)) \<and> pbar_n st1 = pbar_n st + 1
        else dfs st1 = dfs st \<and> pbar_n st1 = pbar_n st"
    by blast
  from Cons.IH[of st1]
  obtain st' where r: "run_units parse cfg a tries net codes sched st1 = Some st'"
    and t': "pbar_total st' = pbar_total st1"
    and at': "attempts st' \<le> attempts st1 + length sched * nat tries"
    and d': "dom (dfs st') = dom (dfs st1) \<union> (\<lambda>i. codes ! i) ` {i \<in> set sched. unit_succeeds parse cfg a tries net codes i}"
    and p': "pbar_n st' = pbar_n st1 + length (filter (unit_succeeds parse cfg a tries net codes) sched)"
    by blast
  have run: "run_units parse cfg a tries net codes (i # sched) st = Some st'"
    using u r by simp
  have tot: "pbar_total st' = pbar_total st" using t t' by simp
  have att: "attempts st' \<le> attempts st + length (i # sched) * nat tries"
    using at at' by simp
  have dm: "dom (dfs st') = dom (dfs st) \<union> (\<lambda>i. codes ! i) ` {j \<in> set (i # sched). unit_succeeds parse cfg a tries net codes j}"
    using e d' by (auto split: if_splits)
  have pn: "pbar_n st' = pbar_n st + length (filter (unit_succeeds parse cfg a tries net codes) (i # sched))"
    using e p' by (auto split: if_splits)
  show ?case using run tot att dm pn by blast
qed

lemma schedule_of_set: "schedule_of codes sched \<Longrightarrow> set sched = {0..<length codes}"
  unfolding schedule_of_def by (metis mset_eq_setD set_upt)

lemma schedule_of_filter:
  "schedule_of codes sched \<Longrightarrow> length (filter P sched) = length (filter P [0..<length codes])"
proof -
  assume "schedule_of codes sched"
  then have "mset (filter P sched) = mset (filter P [0..<length codes])"
    unfolding schedule_of_def by (simp only: mset_filter)
  then show ?thesis by (rule mset_eq_length)
qed

section \<open>The stubs at work\<close>

lemma single_down:
  "get_quote_history_single parse example_config (down_net i k) code default_args
   = (Inl TransportError, 1)"
  by (simp add: get_quote_history_single_def get_quote_history_single_body_def decorated_def
      down_net_def default_args_def)

lemma single_scenario_bad:
  "get_quote_history_single parse example_config (scenario_net i k) ''BADID'' default_args
   = (Inl TransportError, 1)"
  by (simp add: get_quote_history_single_def get_quote_history_single_body_def decorated_def
      scenario_net_def default_args_def kline_request_def)

lemma unit_down: "\<not> unit_succeeds parse example_config default_args tries down_net codes i"
  by (simp add: unit_succeeds_def list_ex_iff attempt_returns_def single_down returns_def)

lemma single_scenario_ok:
  "code \<noteq> ''BADID'' \<Longrightarrow>
   returns (get_quote_history_single parse example_config (scenario_net i k) code default_args)"
  by (simp add: get_quote_history_single_def get_quote_history_single_body_def decorated_def
      scenario_net_def default_args_def kline_request_def returns_def one_day_def
      kline_table_def DataFrame_rows_def df_insert0_def example_config_def col_code_def
      col_name_def to_numeric_def)

lemma scenario_attempt_bad:
  "\<not> returns (get_quote_history_single parse example_config (scenario_net i k) ''BADID''
        default_args)"
  by (simp add: single_scenario_bad returns_def)

lemma scenario_unit0:
  "unit_succeeds parse_digits example_config default_args 3 scenario_net
     [''1.000001'', ''0.399001'', ''BADID''] 0"
proof -
  have zero: "(0::nat) \<in> set [0..<nat 3]" by simp
  have "attempt_returns parse_digits example_config default_args scenario_net
      [''1.000001'', ''0.399001'', ''BADID''] 0 0"
    by (simp add: attempt_returns_def single_scenario_ok)
  with zero show ?thesis unfolding unit_succeeds_def list_ex_iff by blast
qed

lemma scenario_unit1:
  "unit_succeeds parse_digits example_config default_args 3 scenario_net
     [''1.000001'', ''0.399001'', ''BADID''] 1"
proof -
  have zero: "(0::nat) \<in> set [0..<nat 3]" by simp
  have "attempt_returns parse_digits example_config default_args scenario_net
      [''1.000001'', ''0.399001'', ''BADID''] 1 0"
    by (simp add: attempt_returns_def single_scenario_ok)
  with zero show ?thesis unfolding unit_succeeds_def list_ex_iff by blast
qed

lemma scenario_unit2:
  "\<not> unit_succeeds parse_digits example_config default_args 3 scenario_net
     [''1.000001'', ''0.399001'', ''BADID''] 2"
proof -
  have "\<not> attempt_returns parse_digits example_config default_args scenario_net
      [''1.000001'', ''0.399001'', ''BADID''] 2 k" for k
    by (simp add: attempt_returns_def scenario_attempt_bad)
  then show ?thesis unfolding unit_succeeds_def list_ex_iff by simp
qed

section \<open>Claim C1: the keys of the result map\<close>

text \<open>
  Claim C1 says that the key set of the result of a batch is the set of the input
  identifiers, a failed identifier being mapped to an empty table.  The code has no such
  entry: an identifier whose unit exhausts its retries is left out.  In the spec's scenario
  the batch returns, \<^verbatim>\<open>BADID\<close> is an input, and \<^verbatim>\<open>BADID\<close> is not a key of the result.
\<close>

theorem multi_key_set_counterexample:
  "get_quote_history_multi parse_digits example_config scenario_net [0, 1, 2]
     [''1.000001'', ''0.399001'', ''BADID''] default_args 3 \<noteq> None
   \<and> ''BADID'' \<in> set [''1.000001'', ''0.399001'', ''BADID'']
   \<and> ''BADID'' \<notin> dom (dfs (the (get_quote_history_multi parse_digits example_config
        scenario_net [0, 1, 2] [''1.000001'', ''0.399001'', ''BADID''] default_args 3)))"
proof -
  let ?codes = "[''1.000001'', ''0.399001'', ''BADID'']"
  let ?U = "unit_succeeds parse_digits example_config default_args 3 scenario_net ?codes"
  let ?init = "\<lparr>dfs = Map.empty, pbar_total = length ?codes, pbar_n = 0, attempts = 0,
      requests = 0\<rparr> :: int batch"
  have t: "(0::int) \<le> 3" by simp
  from run_units_effect[OF t, of parse_digits example_config default_args scenario_net
      ?codes "[0, 1, 2]" ?init]
  obtain st where r: "run_units parse_digits example_config default_args 3 scenario_net
        ?codes [0, 1, 2] ?init = Some st"
    and d: "dom (dfs st) = dom (dfs ?init) \<union> (\<lambda>i. ?codes ! i) ` {i \<in> set [0, 1, 2]. ?U i}"
    by blast
  have sel: "{i \<in> set [0, 1, 2]. ?U i} = {0, 1}"
  proof (rule set_eqI)
    fix i :: nat
    show "(i \<in> {i \<in> set [0, 1, 2]. ?U i}) = (i \<in> {0, 1})"
      using scenario_unit0 scenario_unit1 scenario_unit2 by (cases "i = 2") auto
  qed
  have img: "(\<lambda>i. ?codes ! i) ` {0, 1::nat} = {''1.000001'', ''0.399001''}" by simp
  have keys: "dom (dfs st) = {''1.000001'', ''0.399001''}"
    unfolding d sel img by simp
  have out: "''BADID'' \<notin> dom (dfs st)" unfolding keys by simp
  have inp: "''BADID'' \<in> set ?codes" by simp
  have m: "get_quote_history_multi parse_digits example_config scenario_net [0, 1, 2]
      ?codes default_args 3 = Some st"
    unfolding get_quote_history_multi_def by (rule r)
  show ?thesis unfolding m using out inp by simp
qed

text \<open>
  Claim C1, as amended.  For a retry budget that is not negative and any order in which the
  units end, the batch returns, and the keys of its result are exactly the input
  identifiers that have a unit one of whose first \<open>tries\<close> attempts returns a table; they
  are among the input identifiers.
\<close>

theorem multi_key_set:
  assumes "0 \<le> tries" and "schedule_of codes sched"
  shows "\<exists>st. get_quote_history_multi parse cfg net sched codes a tries = Some st
     \<and> dom (dfs st) =
         {codes ! i |i. i < length codes \<and> unit_succeeds parse cfg a tries net codes i}
     \<and> dom (dfs st) \<subseteq> set codes"
proof -
  let ?init = "\<lparr>dfs = Map.empty, pbar_total = length codes, pbar_n = 0, attempts = 0,
      requests = 0\<rparr> :: 'a batch"
  from run_units_effect[OF assms(1), of parse cfg a net codes sched ?init]
  obtain st where r: "run_units parse cfg a tries net codes sched ?init = Some st"
    and d: "dom (dfs st) = dom (dfs ?init) \<union>
        (\<lambda>i. codes ! i) ` {i \<in> set sched. unit_succeeds parse cfg a tries net codes i}"
    by blast
  have s: "set sched = {0..<length codes}" using assms(2) by (rule schedule_of_set)
  have k: "dom (dfs st) =
      {codes ! i |i. i < length codes \<and> unit_succeeds parse cfg a tries net codes i}"
    using d s by auto
  then have "dom (dfs st) \<subseteq> set codes" by auto
  with r k show ?thesis by (simp add: get_quote_history_multi_def)
qed

text \<open>The amended claim at the batch of one identifier on a network that is down: the
  batch returns and its result has no key.\<close>

theorem multi_key_set_witness:
  "\<exists>st. get_quote_history_multi parse_digits example_config down_net [0] [''BADID'']
            default_args 3 = Some st
     \<and> dom (dfs st) = {}"
proof -
  have t: "(0::int) \<le> 3" by simp
  have s: "schedule_of [''BADID''] [0]" by (simp add: schedule_of_def)
  from multi_key_set[OF t s, of parse_digits example_config down_net default_args]
  show ?thesis by (auto simp: unit_down)
qed

section \<open>Claim C3: the retry bound\<close>

text \<open>
  Claim C3 says that a unit with three tries whose fetcher always raises makes exactly three
  attempts and ends with an empty table for its identifier.  The count is right; the table
  is not there.  On a network that is down the unit of \<^verbatim>\<open>BADID\<close> ends after three
  attempts, and \<^verbatim>\<open>dfs\<close> has no entry for \<^verbatim>\<open>BADID\<close>.
\<close>

theorem retry_bound_counterexample:
  "run_unit parse_digits example_config default_args 3 (down_net 0) ''BADID''
     \<lparr>dfs = Map.empty, pbar_total = 1, pbar_n = 0, attempts = 0, requests = 0\<rparr> \<noteq> None
   \<and> attempts (the (run_unit parse_digits example_config default_args 3 (down_net 0) ''BADID''
        \<lparr>dfs = Map.empty, pbar_total = 1, pbar_n = 0, attempts = 0, requests = 0\<rparr>)) = 3
   \<and> dfs (the (run_unit parse_digits example_config default_args 3 (down_net 0) ''BADID''
        \<lparr>dfs = Map.empty, pbar_total = 1, pbar_n = 0, attempts = 0, requests = 0\<rparr>)) ''BADID''
     = None"
  by (simp add: run_unit_def start_def single_down retry_call.simps)

text \<open>
  Claim C3, as amended.  With \<^verbatim>\<open>tries = 3\<close> and a fetcher that raises \<^verbatim>\<open>TransportError\<close> on
  every attempt, the retry loop makes exactly three attempts and ends by raising
  \<^verbatim>\<open>TransportError\<close>; the unit ends, \<^verbatim>\<open>dfs\<close> is what it was (no entry is written for the
  identifier) and the progress counter is what it was.
\<close>

theorem retry_bound:
  assumes "\<forall>k. fst (get_quote_history_single parse cfg (sessions k) code a) = Inl TransportError"
  shows "\<exists>n st'.
       retry_call 3 (\<lambda>k. start parse cfg a st code (sessions k)) 0 0
         = Some (Some (Inl TransportError), 3, n)
     \<and> run_unit parse cfg a 3 sessions code st = Some st'
     \<and> attempts st' = attempts st + 3
     \<and> dfs st' = dfs st
     \<and> pbar_n st' = pbar_n st"
proof -
  define N where "N k = snd (get_quote_history_single parse cfg (sessions k) code a)" for k
  define G :: "nat \<Rightarrow> (error + 'a batch) \<times> nat" where
    "G = (\<lambda>k. (Inl TransportError, N k))"
  have F: "(\<lambda>k. start parse cfg a st code (sessions k)) = G"
  proof (rule ext)
    fix k
    have "get_quote_history_single parse cfg (sessions k) code a = (Inl TransportError, N k)"
      using assms by (simp add: N_def prod_eq_iff)
    then show "start parse cfg a st code (sessions k) = G k"
      by (simp add: start_def G_def)
  qed
  have b: "retry_bounded 3 G 0 0 = (Some (Inl TransportError), 3, N 0 + N 1 + N 2)"
    by (simp add: eval_nat_numeral G_def)
  have "retry_call (int 3) G 0 0 = Some (retry_bounded 3 G 0 0)"
    by (rule retry_call_bounded)
  then have rc: "retry_call 3 G 0 0 = Some (Some (Inl TransportError), 3, N 0 + N 1 + N 2)"
    using b by simp
  show ?thesis
    unfolding run_unit_def F rc by simp
qed

text \<open>The amended claim on the network that is down.\<close>

theorem retry_bound_witness:
  "\<exists>n st'.
       retry_call 3 (\<lambda>k. start parse_digits example_config default_args
            \<lparr>dfs = Map.empty, pbar_total = 1, pbar_n = 0, attempts = 0, requests = 0\<rparr>
            ''BADID'' (down_net 0 k)) 0 0
         = Some (Some (Inl TransportError), 3, n)
     \<and> run_unit parse_digits example_config default_args 3 (down_net 0) ''BADID''
          \<lparr>dfs = Map.empty, pbar_total = 1, pbar_n = 0, attempts = 0, requests = 0\<rparr> = Some st'
     \<and> attempts st' = 3
     \<and> dfs st' = Map.empty
     \<and> pbar_n st' = 0"
proof -
  have h: "\<forall>k. fst (get_quote_history_single parse_digits example_config (down_net 0 k)
      ''BADID'' default_args) = Inl TransportError"
    by (simp add: single_down)
  from retry_bound[OF h, of "\<lparr>dfs = Map.empty, pbar_total = 1, pbar_n = 0, attempts = 0,
      requests = 0\<rparr>"]
  show ?thesis by simp
qed

section \<open>Claim C4: the progress counter\<close>

text \<open>
  Claim C4 says that the counter is incremented once per identifier at its terminal
  outcome, failure included, and equals the number of input identifiers at the end.  The
  code calls \<^verbatim>\<open>pbar.update(1)\<close> after a fetch that returned, and nowhere else.  In the
  spec's scenario the batch of three identifiers ends with the counter at two.
\<close>

theorem progress_counter_counterexample:
  "get_quote_history_multi parse_digits example_config scenario_net [0, 1, 2]
     [''1.000001'', ''0.399001'', ''BADID''] default_args 3 \<noteq> None
   \<and> pbar_n (the (get_quote_history_multi parse_digits example_config scenario_net [0, 1, 2]
        [''1.000001'', ''0.399001'', ''BADID''] default_args 3)) = 2
   \<and> length [''1.000001'', ''0.399001'', ''BADID''] = 3"
proof -
  let ?codes = "[''1.000001'', ''0.399001'', ''BADID'']"
  let ?U = "unit_succeeds parse_digits example_config default_args 3 scenario_net ?codes"
  let ?init = "\<lparr>dfs = Map.empty, pbar_total = length ?codes, pbar_n = 0, attempts = 0,
      requests = 0\<rparr> :: int batch"
  have t: "(0::int) \<le> 3" by simp
  from run_units_effect[OF t, of parse_digits example_config default_args scenario_net
      ?codes "[0, 1, 2]" ?init]
  obtain st where r: "run_units parse_digits example_config default_args 3 scenario_net
        ?codes [0, 1, 2] ?init = Some st"
    and p: "pbar_n st = pbar_n ?init + length (filter ?U [0, 1, 2])"
    by blast
  have "filter ?U [0, 1, 2] = [0, 1]"
    using scenario_unit0 scenario_unit1 scenario_unit2 by simp
  with p have n: "pbar_n st = 2" by simp
  have m: "get_quote_history_multi parse_digits example_config scenario_net [0, 1, 2]
      ?codes default_args 3 = Some st"
    unfolding get_quote_history_multi_def by (rule r)
  show ?thesis unfolding m using n by simp
qed

text \<open>
  Claim C4, as amended.  For a retry budget that is not negative and any order in which the
  units end, the batch returns with the counter equal to the number of units that
  succeeded within their budget: one increment per successful unit, none per attempt and
  none for a unit that exhausted its retries.  So the counter is at most the total, which
  is the number of input identifiers.
\<close>

theorem progress_counter:
  assumes "0 \<le> tries" and "schedule_of codes sched"
  shows "\<exists>st. get_quote_history_multi parse cfg net sched codes a tries = Some st
     \<and> pbar_total st = length codes
     \<and> pbar_n st = length (filter (unit_succeeds parse cfg a tries net codes) [0..<length codes])
     \<and> pbar_n st \<le> length codes"
proof -
  let ?init = "\<lparr>dfs = Map.empty, pbar_total = length codes, pbar_n = 0, attempts = 0,
      requests = 0\<rparr> :: 'a batch"
  let ?U = "unit_succeeds parse cfg a tries net codes"
  from run_units_effect[OF assms(1), of parse cfg a net codes sched ?init]
  obtain st where r: "run_units parse cfg a tries net codes sched ?init = Some st"
    and t: "pbar_total st = pbar_total ?init"
    and p: "pbar_n st = pbar_n ?init + length (filter ?U sched)"
    by blast
  have f: "length (filter ?U sched) = length (filter ?U [0..<length codes])"
    using assms(2) by (rule schedule_of_filter)
  have le: "length (filter ?U [0..<length codes]) \<le> length codes"
    using length_filter_le[of ?U "[0..<length codes]"] by simp
  show ?thesis
    using r t p f le by (simp add: get_quote_history_multi_def)
qed

text \<open>The amended claim at the batch of one identifier on a network that is down: the
  counter stays at zero of one.\<close>

theorem progress_counter_witness:
  "\<exists>st. get_quote_history_multi parse_digits example_config down_net [0] [''BADID'']
            default_args 3 = Some st
     \<and> pbar_total st = 1 \<and> pbar_n st = 0"
proof -
  have t: "(0::int) \<le> 3" by simp
  have s: "schedule_of [''BADID''] [0]" by (simp add: schedule_of_def)
  from progress_counter[OF t s, of parse_digits example_config down_net default_args]
  show ?thesis by (auto simp: unit_down)
qed

section \<open>Properties of the single-item fetchers\<close>

text \<open>\<^verbatim>\<open>split\<close> never returns the empty list, so the \<^verbatim>\<open>[-1]\<close> of
  \<^verbatim>\<open>quote_id.split('.')[-1]\<close> is always there.\<close>

lemma split_on_nonempty: "split_on sep s \<noteq> []"
  by (induction s) (auto split: list.splits)

lemma col_name_neq_col_code: "col_name \<noteq> col_code"
  by (simp add: col_name_def col_code_def)

lemma kline_table_columns:
  "kline_table columns name code ks = Inr df \<Longrightarrow> df_columns df = col_name # col_code # columns"
  by (auto simp: kline_table_def DataFrame_rows_def df_insert0_def DataFrame_columns_def Let_def
      split: sum.splits if_splits)

lemma kline_table_Inr:
  assumes "ks \<noteq> []"
    and "foldr max (map length (map (split_on CHR '','') ks)) 0 = length columns"
    and "col_name \<notin> set columns" and "col_code \<notin> set columns"
  shows "kline_table columns name code ks =
     Inr \<lparr>df_columns = col_name # col_code # columns,
          df_rows = map (\<lambda>k. Str name # Str code # map Str (split_on CHR '','' k)
                          @ replicate (length columns - length (split_on CHR '','' k)) Missing) ks\<rparr>"
  using assms col_name_neq_col_code
  by (simp add: kline_table_def DataFrame_rows_def df_insert0_def Let_def)

lemma decorated_columns:
  "decorated parse r = (Inr df, n) \<Longrightarrow> \<exists>df0. r = (Inr df0, n) \<and> df = to_numeric parse df0"
  by (auto simp: decorated_def split: prod.splits sum.splits)

lemma single_columns:
  "get_quote_history_single parse cfg session_get code a = (Inr df, n) \<Longrightarrow>
   df_columns df = col_name # col_code # map snd (KLINE_FIELDS cfg)"
  unfolding get_quote_history_single_def
  by (drule decorated_columns)
     (auto simp: get_quote_history_single_body_def Let_def DataFrame_columns_def
        columns_to_numeric kline_table_columns split: sum.splits if_splits)

lemma bill_columns:
  "get_history_bill parse cfg session_get code = (Inr df, n) \<Longrightarrow>
   df_columns df = col_name # col_code # map snd (HISTORY_BILL_FIELDS cfg)"
  unfolding get_history_bill_def
  by (drule decorated_columns)
     (auto simp: get_history_bill_body_def Let_def DataFrame_columns_def
        columns_to_numeric kline_table_columns split: sum.splits if_splits list.splits)

lemma to_numeric_empty:
  "to_numeric parse (DataFrame_columns cols) = \<lparr>df_columns = cols, df_rows = []\<rparr>"
  by (simp add: to_numeric_def DataFrame_columns_def)

section \<open>Claim C5: the schema of an empty result\<close>

text \<open>
  Claim C5.  When the reply holds no data rows, \<^verbatim>\<open>get_quote_history_single\<close> and
  \<^verbatim>\<open>get_history_bill\<close> return a table of zero rows whose columns are the name label, the
  code label, and then the labels of the endpoint's field table; and every table either
  function returns, empty or not, has exactly these columns.
\<close>

theorem empty_payload_schema:
  "((if quote_id_mode a then Inr code else get_quote_id cfg code) = Inr quote_id
      \<and> session_get (kline_request cfg a quote_id) = Inr js \<and> klines js = []
     \<longrightarrow> get_quote_history_single parse cfg session_get code a
         = (Inr \<lparr>df_columns = col_name # col_code # map snd (KLINE_FIELDS cfg), df_rows = []\<rparr>, 1))
   \<and> (get_quote_history_single parse cfg sessionB codeB argsB = (Inr dfB, nB)
     \<longrightarrow> df_columns dfB = col_name # col_code # map snd (KLINE_FIELDS cfg))
   \<and> (get_quote_id cfg codeC = Inr quote_idC
      \<and> sessionC (bill_request cfg quote_idC) = Inr jsC \<and> klines jsC = []
     \<longrightarrow> get_history_bill parse cfg sessionC codeC
         = (Inr \<lparr>df_columns = col_name # col_code # map snd (HISTORY_BILL_FIELDS cfg),
                 df_rows = []\<rparr>, 1))
   \<and> (get_history_bill parse cfg sessionD codeD = (Inr dfD, nD)
     \<longrightarrow> df_columns dfD = col_name # col_code # map snd (HISTORY_BILL_FIELDS cfg))"
proof (intro conjI impI)
  assume "(if quote_id_mode a then Inr code else get_quote_id cfg code) = Inr quote_id
      \<and> session_get (kline_request cfg a quote_id) = Inr js \<and> klines js = []"
  then show "get_quote_history_single parse cfg session_get code a
      = (Inr \<lparr>df_columns = col_name # col_code # map snd (KLINE_FIELDS cfg), df_rows = []\<rparr>, 1)"
    by (simp add: get_quote_history_single_def get_quote_history_single_body_def
        decorated_def to_numeric_empty)
next
  assume "get_quote_history_single parse cfg sessionB codeB argsB = (Inr dfB, nB)"
  then show "df_columns dfB = col_name # col_code # map snd (KLINE_FIELDS cfg)"
    by (rule single_columns)
next
  assume "get_quote_id cfg codeC = Inr quote_idC
      \<and> sessionC (bill_request cfg quote_idC) = Inr jsC \<and> klines jsC = []"
  then show "get_history_bill parse cfg sessionC codeC
      = (Inr \<lparr>df_columns = col_name # col_code # map snd (HISTORY_BILL_FIELDS cfg),
              df_rows = []\<rparr>, 1)"
    by (simp add: get_history_bill_def get_history_bill_body_def decorated_def
        to_numeric_empty)
next
  assume "get_history_bill parse cfg sessionD codeD = (Inr dfD, nD)"
  then show "df_columns dfD = col_name # col_code # map snd (HISTORY_BILL_FIELDS cfg)"
    by (rule bill_columns)
qed

text \<open>Claim C5 on the stubs: a reply without rows for the empty case, the reply of one
  row for the other.\<close>

theorem empty_payload_schema_witness:
  "get_quote_history_single parse_digits example_config (quiet_net 0 0) ''1.000001'' default_args
     = (Inr \<lparr>df_columns = col_name # col_code # map snd (KLINE_FIELDS example_config),
              df_rows = []\<rparr>, 1)
   \<and> df_columns (\<lparr>df_columns = [col_name, col_code, ''date'', ''close''],
                   df_rows = [[Str ''bank'', Num 1, Num 20210104, Num 10]]\<rparr> :: int DataFrame)
     = col_name # col_code # map snd (KLINE_FIELDS example_config)
   \<and> get_history_bill parse_digits example_config (quiet_net 0 0) ''000001''
     = (Inr \<lparr>df_columns = col_name # col_code # map snd (HISTORY_BILL_FIELDS example_config),
              df_rows = []\<rparr>, 1)
   \<and> df_columns (\<lparr>df_columns = [col_name, col_code, ''date'', ''inflow''],
                   df_rows = [[Str ''bank'', Num 1, Num 20210104, Num 10]]\<rparr> :: int DataFrame)
     = col_name # col_code # map snd (HISTORY_BILL_FIELDS example_config)"
proof -
  have h1: "(if quote_id_mode default_args then Inr ''1.000001''
             else get_quote_id example_config ''1.000001'') = Inr ''1.000001''
      \<and> quiet_net 0 0 (kline_request example_config default_args ''1.000001'') = Inr no_rows
      \<and> klines no_rows = []"
    by (simp add: default_args_def quiet_net_def no_rows_def)
  have h2: "get_quote_history_single parse_digits example_config (scenario_net 0 0)
        ''1.000001'' default_args
      = (Inr \<lparr>df_columns = [col_name, col_code, ''date'', ''close''],
               df_rows = [[Str ''bank'', Num 1, Num 20210104, Num 10]]\<rparr>, 1)"
    by code_simp
  have h3: "get_quote_id example_config ''000001'' = Inr ''1.000001''
      \<and> quiet_net 0 0 (bill_request example_config ''1.000001'') = Inr no_rows
      \<and> klines no_rows = []"
    by (simp add: example_config_def quiet_net_def no_rows_def)
  have h4: "get_history_bill parse_digits example_config (scenario_net 0 0) ''000001''
      = (Inr \<lparr>df_columns = [col_name, col_code, ''date'', ''inflow''],
               df_rows = [[Str ''bank'', Num 1, Num 20210104, Num 10]]\<rparr>, 1)"
    by code_simp
  from empty_payload_schema[where a = default_args and code = "''1.000001''"
      and cfg = example_config and quote_id = "''1.000001''" and session_get = "quiet_net 0 0"
      and js = no_rows and parse = parse_digits and sessionB = "scenario_net 0 0"
      and codeB = "''1.000001''" and argsB = default_args
      and dfB = "\<lparr>df_columns = [col_name, col_code, ''date'', ''close''],
               df_rows = [[Str ''bank'', Num 1, Num 20210104, Num 10]]\<rparr>"
      and nB = 1 and codeC = "''000001''" and quote_idC = "''1.000001''"
      and sessionC = "quiet_net 0 0" and jsC = no_rows
      and sessionD = "scenario_net 0 0" and codeD = "''000001''"
      and dfD = "\<lparr>df_columns = [col_name, col_code, ''date'', ''inflow''],
               df_rows = [[Str ''bank'', Num 1, Num 20210104, Num 10]]\<rparr>"
      and nD = 1]
    h1 h2 h3 h4
  show ?thesis by blast
qed

text \<open>
  A remark beside claim C5, on the sibling \<^verbatim>\<open>get_today_bill\<close>, which the claim does not
  cite: with no rows it returns the empty table under its labels when the reply has a
  name, and raises \<^verbatim>\<open>TypeError\<close> when the reply has none.
\<close>

lemma today_bill_empty_with_name:
  "get_quote_id cfg code = Inr quote_id \<Longrightarrow>
   session_get (today_bill_request quote_id) = Inr js \<Longrightarrow>
   klines js = [] \<Longrightarrow> names js = name # others \<Longrightarrow>
   get_today_bill parse cfg session_get code
     = (Inr \<lparr>df_columns = col_name # col_code # today_bill_columns, df_rows = []\<rparr>, 1)"
  by (simp add: get_today_bill_def get_today_bill_body_def decorated_def to_numeric_empty)

lemma today_bill_empty_without_name:
  "get_quote_id cfg code = Inr quote_id \<Longrightarrow>
   session_get (today_bill_request quote_id) = Inr js \<Longrightarrow>
   klines js = [] \<Longrightarrow> names js = [] \<Longrightarrow>
   get_today_bill parse cfg session_get code = (Inl TypeError, 1)"
  by (simp add: get_today_bill_def get_today_bill_body_def decorated_def)

section \<open>Claim C8: one record per kline\<close>

text \<open>
  Claim C8.  When the reply holds a non-empty list of comma-joined strings whose widest
  element has as many pieces as the endpoint has fields (and the name is there, and the
  two prepended labels are not field labels already), \<^verbatim>\<open>get_quote_history_single\<close> returns
  the normalised form of the table that has one row per element of the list, in order:
  row \<open>i\<close> is the name, the code (the part of the quote identifier after its last dot)
  and then the pieces of element \<open>i\<close>, position by position under the field labels, a
  shorter element being filled up with missing values.
\<close>

theorem klines_to_records:
  assumes "(if quote_id_mode a then Inr code else get_quote_id cfg code) = Inr quote_id"
    and "session_get (kline_request cfg a quote_id) = Inr js"
    and "klines js \<noteq> []"
    and "data_name js = Inr name"
    and "foldr max (map length (map (split_on CHR '','') (klines js))) 0
           = length (KLINE_FIELDS cfg)"
    and "col_name \<notin> snd ` set (KLINE_FIELDS cfg)"
    and "col_code \<notin> snd ` set (KLINE_FIELDS cfg)"
  shows "\<exists>df. get_quote_history_single parse cfg session_get code a = (Inr df, 1)
     \<and> df = to_numeric parse
        \<lparr>df_columns = col_name # col_code # map snd (KLINE_FIELDS cfg),
         df_rows = map (\<lambda>k. Str name # Str (last (split_on CHR ''.'' quote_id))
                           # map Str (split_on CHR '','' k)
                           @ replicate (length (KLINE_FIELDS cfg) - length (split_on CHR '','' k))
                               Missing)
                       (klines js)\<rparr>
     \<and> length (df_rows df) = length (klines js)"
proof -
  let ?cols = "map snd (KLINE_FIELDS cfg)"
  have w: "foldr max (map length (map (split_on CHR '','') (klines js))) 0 = length ?cols"
    using assms(5) by simp
  have n1: "col_name \<notin> set ?cols" and n2: "col_code \<notin> set ?cols"
    using assms(6,7) by simp_all
  note kt = kline_table_Inr[OF assms(3) w n1 n2, of name "last (split_on CHR ''.'' quote_id)"]
  have body: "get_quote_history_single_body cfg session_get code a =
     (Inr \<lparr>df_columns = col_name # col_code # ?cols,
         df_rows = map (\<lambda>k. Str name # Str (last (split_on CHR ''.'' quote_id))
                           # map Str (split_on CHR '','' k)
                           @ replicate (length (KLINE_FIELDS cfg) - length (split_on CHR '','' k))
                               Missing)
                       (klines js)\<rparr>, 1)"
    using assms(1,2,3,4) kt
    by (simp add: get_quote_history_single_body_def Let_def)
  show ?thesis
    unfolding get_quote_history_single_def body
    by (simp add: decorated_def length_to_numeric)
qed


text \<open>Claim C8 on the reply of one row.\<close>

theorem klines_to_records_witness:
  "\<exists>df. get_quote_history_single parse_digits example_config (scenario_net 0 0) ''1.000001''
           default_args = (Inr df, 1)
     \<and> df = to_numeric parse_digits
        \<lparr>df_columns = [col_name, col_code, ''date'', ''close''],
         df_rows = [[Str ''bank'', Str ''000001'', Str ''20210104'', Str ''10'']]\<rparr>
     \<and> length (df_rows df) = 1"
proof -
  have h1: "(if quote_id_mode default_args then Inr ''1.000001''
             else get_quote_id example_config ''1.000001'') = Inr ''1.000001''"
    by (simp add: default_args_def)
  have h2: "scenario_net 0 0 (kline_request example_config default_args ''1.000001'')
      = Inr one_day"
    by (simp add: scenario_net_def kline_request_def)
  have h3: "klines one_day \<noteq> []" by (simp add: one_day_def)
  have h4: "data_name one_day = Inr ''bank''" by (simp add: one_day_def)
  have h5: "foldr max (map length (map (split_on CHR '','') (klines one_day))) 0
      = length (KLINE_FIELDS example_config)"
    by (simp add: one_day_def example_config_def)
  have h6: "col_name \<notin> snd ` set (KLINE_FIELDS example_config)"
    by (simp add: example_config_def col_name_def)
  have h7: "col_code \<notin> snd ` set (KLINE_FIELDS example_config)"
    by (simp add: example_config_def col_code_def)
  from klines_to_records[where session_get = "scenario_net 0 0" and a = default_args
      and code = "''1.000001''" and cfg = example_config and quote_id = "''1.000001''"
      and js = one_day and name = "''bank''" and parse = parse_digits,
      OF h1 h2 h3 h4 h5 h6 h7]
  show ?thesis by (simp add: one_day_def example_config_def)
qed

section \<open>Claim C6: the dispatch\<close>

lemma multi_returns:
  assumes "0 \<le> tries" and "schedule_of codes sched"
  shows "\<exists>st. get_quote_history_multi parse cfg net sched codes a tries = Some st"
  using run_units_effect[OF assms(1), of parse cfg a net codes sched]
  unfolding get_quote_history_multi_def by blast

text \<open>
  Claim C6.  \<^verbatim>\<open>get_quote_history\<close> on a \<^verbatim>\<open>str\<close> is the single fetch, its table returned as
  a single table; on an object that is not a \<^verbatim>\<open>str\<close> and has \<^verbatim>\<open>__iter__\<close> it is the batch
  over the elements, which (for a retry budget that is not negative, 3 unless the caller
  says otherwise) returns, and the result is the result map; on any other object it raises
  \<^verbatim>\<open>TypeError\<close>, the code's invalid-input error, having issued no request.
\<close>

theorem dispatch_routes:
  "(isinstance_str x \<longrightarrow>
      get_quote_history parse cfg net sched x a =
        Some (map_sum id Table (fst (get_quote_history_single parse cfg (net 0 0) (str_of x) a)),
              snd (get_quote_history_single parse cfg (net 0 0) (str_of x) a)))
   \<and> (\<not> isinstance_str y \<and> hasattr_iter y
        \<and> 0 \<le> (case tries_kw b of None \<Rightarrow> 3 | Some t \<Rightarrow> t)
        \<and> schedule_of (list_of y) sched \<longrightarrow>
      (\<exists>st. get_quote_history_multi parse cfg net sched (list_of y) b
               (case tries_kw b of None \<Rightarrow> 3 | Some t \<Rightarrow> t) = Some st
          \<and> get_quote_history parse cfg net sched y b
               = Some (Inr (ResultMap (dfs st)), requests st)))
   \<and> (\<not> isinstance_str z \<and> \<not> hasattr_iter z \<longrightarrow>
      get_quote_history parse cfg net sched z c = Some (Inl TypeError, 0))"
proof (intro conjI impI)
  assume "isinstance_str x"
  then show "get_quote_history parse cfg net sched x a =
        Some (map_sum id Table (fst (get_quote_history_single parse cfg (net 0 0) (str_of x) a)),
              snd (get_quote_history_single parse cfg (net 0 0) (str_of x) a))"
    by (simp add: get_quote_history_def split: prod.splits sum.splits)
next
  assume h: "\<not> isinstance_str y \<and> hasattr_iter y
        \<and> 0 \<le> (case tries_kw b of None \<Rightarrow> 3 | Some t \<Rightarrow> t)
        \<and> schedule_of (list_of y) sched"
  then obtain st where "get_quote_history_multi parse cfg net sched (list_of y) b
               (case tries_kw b of None \<Rightarrow> 3 | Some t \<Rightarrow> t) = Some st"
    using multi_returns by blast
  with h show "\<exists>st. get_quote_history_multi parse cfg net sched (list_of y) b
               (case tries_kw b of None \<Rightarrow> 3 | Some t \<Rightarrow> t) = Some st
          \<and> get_quote_history parse cfg net sched y b
               = Some (Inr (ResultMap (dfs st)), requests st)"
    by (simp add: get_quote_history_def)
next
  assume "\<not> isinstance_str z \<and> \<not> hasattr_iter z"
  then show "get_quote_history parse cfg net sched z c = Some (Inl TypeError, 0)"
    by (simp add: get_quote_history_def)
qed

text \<open>Claim C6 on a string, on the list of the spec's scenario, and on an integer.\<close>

theorem dispatch_routes_witness:
  "get_quote_history parse_digits example_config scenario_net [0, 1, 2] (PyStr ''1.000001'')
       default_args
     = Some (Inr (Table \<lparr>df_columns = [col_name, col_code, ''date'', ''close''],
                           df_rows = [[Str ''bank'', Num 1, Num 20210104, Num 10]]\<rparr>), 1)
   \<and> (\<exists>st. get_quote_history_multi parse_digits example_config scenario_net [0, 1, 2]
              [''1.000001'', ''0.399001'', ''BADID''] default_args 3 = Some st
        \<and> get_quote_history parse_digits example_config scenario_net [0, 1, 2]
             (PyList [''1.000001'', ''0.399001'', ''BADID'']) default_args
            = Some (Inr (ResultMap (dfs st)), requests st))
   \<and> get_quote_history parse_digits example_config scenario_net [0, 1, 2] (PyInt 600519)
       default_args
     = Some (Inl TypeError, 0)"
proof -
  have hx: "isinstance_str (PyStr ''1.000001'')" by simp
  have hy: "\<not> isinstance_str (PyList [''1.000001'', ''0.399001'', ''BADID''])
      \<and> hasattr_iter (PyList [''1.000001'', ''0.399001'', ''BADID''])
      \<and> 0 \<le> (case tries_kw default_args of None \<Rightarrow> 3 | Some t \<Rightarrow> t)
      \<and> schedule_of (list_of (PyList [''1.000001'', ''0.399001'', ''BADID''])) [0, 1, 2]"
    by (simp add: default_args_def schedule_of_def upt_rec)
  have hz: "\<not> isinstance_str (PyInt 600519) \<and> \<not> hasattr_iter (PyInt 600519)" by simp
  have v: "get_quote_history_single parse_digits example_config (scenario_net 0 0)
        ''1.000001'' default_args
      = (Inr \<lparr>df_columns = [col_name, col_code, ''date'', ''close''],
               df_rows = [[Str ''bank'', Num 1, Num 20210104, Num 10]]\<rparr>, 1)"
    by code_simp
  have t: "(case tries_kw default_args of None \<Rightarrow> 3 | Some t \<Rightarrow> t) = (3::int)"
    by (simp add: default_args_def)
  from dispatch_routes[where x = "PyStr ''1.000001''"
      and y = "PyList [''1.000001'', ''0.399001'', ''BADID'']" and z = "PyInt 600519"
      and parse = parse_digits and cfg = example_config and net = scenario_net
      and sched = "[0, 1, 2]" and a = default_args and b = default_args and c = default_args]
    hx hy hz
  show ?thesis by (simp add: v t)
qed

section \<open>Claim C10: a string is a single identifier\<close>

text \<open>
  Claim C10.  A \<^verbatim>\<open>str\<close> passes both tests of the dispatch, and the first one decides: the
  call is the single fetch on the whole string, and whatever it returns is not a result
  map.
\<close>

theorem string_is_single:
  "isinstance_str (PyStr s) \<and> hasattr_iter (PyStr s)
   \<and> get_quote_history parse cfg net sched (PyStr s) a =
        Some (map_sum id Table (fst (get_quote_history_single parse cfg (net 0 0) s a)),
              snd (get_quote_history_single parse cfg (net 0 0) s a))
   \<and> (\<forall>m n. get_quote_history parse cfg net sched (PyStr s) a \<noteq> Some (Inr (ResultMap m), n))"
  by (cases "get_quote_history_single parse cfg (net 0 0) s a";
      cases "fst (get_quote_history_single parse cfg (net 0 0) s a)")
     (auto simp: get_quote_history_def)

section \<open>Claim C2: the reference cache\<close>

text \<open>Every lookup issues a request; on a hit it still returns the stored record when the
  request succeeds, and raises when the request fails.\<close>

lemma lookup_always_requests:
  "base_info_requests (snd (base_info_lookup parse cfg session_get quote_id st))
   = base_info_requests st + 1"
  by (simp add: base_info_lookup_def Let_def split: sum.splits option.splits)

lemma lookup_hit_returns_stored:
  "BASE_INFO_CACHE st quote_id = Some stored \<Longrightarrow>
   get_base_info parse cfg session_get quote_id = Inr fetched \<Longrightarrow>
   fst (base_info_lookup parse cfg session_get quote_id st) = Inr stored"
  by (simp add: base_info_lookup_def Let_def)

lemma lookup_hit_raises_when_down:
  "get_base_info parse cfg session_get quote_id = Inl e \<Longrightarrow>
   fst (base_info_lookup parse cfg session_get quote_id st) = Inl e"
  by (simp add: base_info_lookup_def Let_def)

lemma base_info_value:
  "get_base_info parse_digits example_config (scenario_net 0 0) ''1.000001''
   = Inr [(col_code, Num 1), (col_name, Str ''bank'')]"
  by code_simp

text \<open>
  Claim C2 says that a lookup of an identifier already in the cache performs no network
  access.  The code evaluates \<^verbatim>\<open>get_base_info(quote_id)\<close> as an argument of
  \<^verbatim>\<open>BASE_INFO_CACHE.get\<close>, so the hit fetches too.  Two lookups of the same identifier in a
  row, from an empty cache: they return the same record, the first stores it, and the
  second, a hit, is the second request.
\<close>

theorem cache_hit_fetches:
  "fst (base_info_lookup parse_digits example_config (scenario_net 0 0) ''1.000001''
          (snd (base_info_lookup parse_digits example_config (scenario_net 0 0) ''1.000001''
                  empty_cache)))
     = fst (base_info_lookup parse_digits example_config (scenario_net 0 0) ''1.000001''
              empty_cache)
   \<and> BASE_INFO_CACHE (snd (base_info_lookup parse_digits example_config (scenario_net 0 0)
          ''1.000001'' empty_cache)) ''1.000001''
     = Some [(col_code, Num 1), (col_name, Str ''bank'')]
   \<and> base_info_requests (snd (base_info_lookup parse_digits example_config (scenario_net 0 0)
          ''1.000001'' empty_cache)) = 1
   \<and> base_info_requests (snd (base_info_lookup parse_digits example_config (scenario_net 0 0)
          ''1.000001''
          (snd (base_info_lookup parse_digits example_config (scenario_net 0 0) ''1.000001''
                  empty_cache)))) = 2"
  by (simp add: base_info_lookup_def base_info_value empty_cache_def Let_def)

end
